theory Spec2Isabelle
  imports Main "HOL-Library.Sublist"
begin

section \<open>The verification-email handler of \<^verbatim>\<open>src/index.js\<close>\<close>

text \<open>
  The module exports one asynchronous function, \<^verbatim>\<open>handler\<close>. It reads the message
  of the first record of an SNS event, parses it as JSON, destructures six fields, builds
  the parameters of one \<^verbatim>\<open>SES.sendEmail\<close> call and maps how that call ends to a
  result object. This theory embeds the function together with the fragment of the
  JavaScript semantics it exercises: property reads, destructuring, string coercion,
  exceptions, \<^verbatim>\<open>await\<close> and \<^verbatim>\<open>try/catch\<close>.
\<close>

subsection \<open>JavaScript values\<close>

text \<open>
  The event handed to the function is deserialised JSON, and so is whatever
  \<^verbatim>\<open>JSON.parse\<close> returns: the values are the JSON values, and \<^verbatim>\<open>undefined\<close>
  (what reading an absent property gives). An object is the association list of its own
  properties, read by \<open>map_of\<close>. Strings are \<open>char list\<close>s. The handler does no
  arithmetic; a number is held as the text \<^verbatim>\<open>ToString\<close> gives for it, the only thing
  the handler can observe of a number.
\<close>

datatype jsval =
    JUndefined
  | JNull
  | JBoolean bool
  | JNumber string
  | JString string
  | JArray "jsval list"
  | JObject "(string \<times> jsval) list"

text \<open>
  What a \<^verbatim>\<open>throw\<close> or a rejected promise carries: the two errors the runtime itself
  raises on this code, or any value a collaborator throws.
\<close>

datatype jserror = TypeError | SyntaxError | Thrown jsval

text \<open>
  \<^verbatim>\<open>v[k]\<close> and \<^verbatim>\<open>v.k\<close>, for the property names the handler reads:
  \<^verbatim>\<open>Records\<close>, \<^verbatim>\<open>0\<close>, \<^verbatim>\<open>Sns\<close>, \<^verbatim>\<open>Message\<close> and the six
  destructured names. None of them is a property of a built-in prototype, so a read
  finds an own property or \<^verbatim>\<open>undefined\<close>. Reading from \<^verbatim>\<open>undefined\<close> or
  \<^verbatim>\<open>null\<close> throws a TypeError. Of an array or a string only index \<^verbatim>\<open>0\<close> is
  among these names.
\<close>

fun js_get :: "jsval \<Rightarrow> string \<Rightarrow> jserror + jsval" where
  "js_get JUndefined k = Inl TypeError"
| "js_get JNull k = Inl TypeError"
| "js_get (JBoolean b) k = Inr JUndefined"
| "js_get (JNumber n) k = Inr JUndefined"
| "js_get (JString s) k =
     Inr (if k = ''0'' then (case s of [] \<Rightarrow> JUndefined | c # _ \<Rightarrow> JString [c])
          else JUndefined)"
| "js_get (JArray xs) k =
     Inr (if k = ''0'' then (case xs of [] \<Rightarrow> JUndefined | x # _ \<Rightarrow> x)
          else JUndefined)"
| "js_get (JObject fs) k =
     Inr (case map_of fs k of None \<Rightarrow> JUndefined | Some v \<Rightarrow> v)"

text \<open>
  \<^verbatim>\<open>ToString\<close>, which string concatenation, template literals and
  \<^verbatim>\<open>JSON.parse\<close> apply to their operands. An array is the join of its elements with
  commas, \<^verbatim>\<open>undefined\<close> and \<^verbatim>\<open>null\<close> elements giving the empty string. A plain
  object is \<^verbatim>\<open>[object Object]\<close>, unless it has an own property \<^verbatim>\<open>toString\<close>:
  a JSON value is never callable, the inherited \<^verbatim>\<open>valueOf\<close> returns the object
  itself, and the conversion to a primitive throws a TypeError. This holds for both
  orders in which \<^verbatim>\<open>toString\<close> and \<^verbatim>\<open>valueOf\<close> are tried, so \<^verbatim>\<open>+\<close> with a
  string operand and a template literal coerce alike.
\<close>

fun to_string :: "jsval \<Rightarrow> jserror + string"
  and join :: "jsval list \<Rightarrow> jserror + string" where
  "to_string JUndefined = Inr ''undefined''"
| "to_string JNull = Inr ''null''"
| "to_string (JBoolean b) = Inr (if b then ''true'' else ''false'')"
| "to_string (JNumber n) = Inr n"
| "to_string (JString s) = Inr s"
| "to_string (JArray xs) = join xs"
| "to_string (JObject fs) =
     (if map_of fs ''toString'' = None then Inr ''[object Object]'' else Inl TypeError)"
| "join [] = Inr []"
| "join (x # xs) =
     (case (if x = JUndefined \<or> x = JNull then Inr [] else to_string x) of
        Inl e \<Rightarrow> Inl e
      | Inr s \<Rightarrow>
          (if xs = [] then Inr s
           else (case join xs of Inl e \<Rightarrow> Inl e | Inr t \<Rightarrow> Inr (s @ '','' @ t))))"

subsection \<open>The collaborators\<close>

text \<open>The parameters of \<^verbatim>\<open>SES.sendEmail\<close>, nested as the object literal is.\<close>

record destination =
  ToAddresses :: "jsval list"

record content =
  Data :: string

record body =
  Html :: content

record message =
  Body :: body
  Subject :: content

record ses_params =
  Destination :: destination
  Message :: message
  Source :: string

text \<open>
  \<^verbatim>\<open>SES.sendEmail(params)\<close> throws or returns a request; the request's
  \<^verbatim>\<open>.promise()\<close> throws or returns a promise; the promise is fulfilled, is rejected
  with a reason, or never settles.
\<close>

datatype settlement = Fulfilled | Rejected jserror | Pending

datatype aws_request = AWSRequest "jserror + settlement"

text \<open>
  The globals the module closes over: \<^verbatim>\<open>JSON.parse\<close> of the platform and the client
  \<^verbatim>\<open>SES\<close> constructed when the module loads. Both are parameters of the model.
\<close>

record runtime =
  JSON_parse :: "string \<Rightarrow> jserror + jsval"
  SES_sendEmail :: "ses_params \<Rightarrow> jserror + aws_request"

text \<open>What an invocation does to the outside, in order.\<close>

datatype effect = Call_sendEmail ses_params | Console_error jserror

record handler_result =
  statusCode :: nat
  body :: string

text \<open>
  How the promise of the \<^verbatim>\<open>async\<close> function ends: fulfilled with the returned
  object, rejected with an uncaught exception, or never settled.
\<close>

datatype outcome = Returned handler_result | Faulted jserror | Unsettled

subsection \<open>The handler\<close>

record 'a user_fields =
  first_name :: 'a
  last_name :: 'a
  password :: 'a
  username :: 'a
  email :: 'a
  token :: 'a

text \<open>
  The binding pattern \<^verbatim>\<open>const { first_name, ..., token } = v\<close>: the properties are
  read in order, and the first read throws when \<^verbatim>\<open>v\<close> is \<^verbatim>\<open>undefined\<close> or
  \<^verbatim>\<open>null\<close>.
\<close>

definition destructure :: "jsval \<Rightarrow> jserror + jsval user_fields" where
  "destructure v =
     (case js_get v ''first_name'' of Inl e \<Rightarrow> Inl e | Inr a \<Rightarrow>
      case js_get v ''last_name'' of Inl e \<Rightarrow> Inl e | Inr b \<Rightarrow>
      case js_get v ''password'' of Inl e \<Rightarrow> Inl e | Inr c \<Rightarrow>
      case js_get v ''username'' of Inl e \<Rightarrow> Inl e | Inr d \<Rightarrow>
      case js_get v ''email'' of Inl e \<Rightarrow> Inl e | Inr f \<Rightarrow>
      case js_get v ''token'' of Inl e \<Rightarrow> Inl e | Inr g \<Rightarrow>
      Inr \<lparr>first_name = a, last_name = b, password = c, username = d,
           email = f, token = g\<rparr>)"

text \<open>Line 8: \<^verbatim>\<open>JSON.parse(event.Records[0].Sns.Message)\<close>, destructured.\<close>

definition payload_fields :: "runtime \<Rightarrow> jsval \<Rightarrow> jserror + jsval user_fields" where
  "payload_fields rt event =
     (case js_get event ''Records'' of Inl e \<Rightarrow> Inl e | Inr records \<Rightarrow>
      case js_get records ''0'' of Inl e \<Rightarrow> Inl e | Inr record0 \<Rightarrow>
      case js_get record0 ''Sns'' of Inl e \<Rightarrow> Inl e | Inr sns \<Rightarrow>
      case js_get sns ''Message'' of Inl e \<Rightarrow> Inl e | Inr msg \<Rightarrow>
      case to_string msg of Inl e \<Rightarrow> Inl e | Inr txt \<Rightarrow>
      case JSON_parse rt txt of Inl e \<Rightarrow> Inl e | Inr v \<Rightarrow>
      destructure v)"

text \<open>Line 9: the link, \<^verbatim>\<open>email\<close> coerced before \<^verbatim>\<open>token\<close>.\<close>

definition verificationLink :: "jsval user_fields \<Rightarrow> jserror + string" where
  "verificationLink c =
     (case to_string (email c) of Inl e \<Rightarrow> Inl e | Inr es \<Rightarrow>
      case to_string (token c) of Inl e \<Rightarrow> Inl e | Inr ts \<Rightarrow>
      Inr (''http://prod.polepeddiaravind.me/v1/verifyUserEmail?email='' @ es
           @ ''&token='' @ ts @ ''''))"

text \<open>
  Lines 10 to 23: the object literal \<^verbatim>\<open>params\<close>. The destination holds
  \<^verbatim>\<open>email\<close> as it is; the template literal coerces \<^verbatim>\<open>first_name\<close>, then
  \<^verbatim>\<open>last_name\<close>.
\<close>

definition params :: "jsval user_fields \<Rightarrow> string \<Rightarrow> jserror + ses_params" where
  "params c link =
     (case to_string (first_name c) of Inl e \<Rightarrow> Inl e | Inr fs \<Rightarrow>
      case to_string (last_name c) of Inl e \<Rightarrow> Inl e | Inr ls \<Rightarrow>
      Inr \<lparr>Destination = \<lparr>ToAddresses = [email c]\<rparr>,
           Message =
             \<lparr>Body = \<lparr>Html = \<lparr>Data =
                ''<html><body>Hello '' @ fs @ '' '' @ ls
                @ '',<br> Thank you for subscribing. To use the portal verify by clicking the below link.<br><br><a href=''
                @ link
                @ ''>Verify your account</a><br><br><br> Kind Regards,<br> <strong>Team CSYE6225!<strong></body></html>''\<rparr>\<rparr>,
              Subject = \<lparr>Data = ''Subscribe to the link to use service''\<rparr>\<rparr>,
           Source = ''aravind@yprod.polepeddiaravind.me''\<rparr>)"

text \<open>Lines 8 to 23 together: all that runs before the \<^verbatim>\<open>try\<close> block.\<close>

definition request :: "runtime \<Rightarrow> jsval \<Rightarrow> jserror + ses_params" where
  "request rt event =
     (case payload_fields rt event of Inl e \<Rightarrow> Inl e | Inr c \<Rightarrow>
      case verificationLink c of Inl e \<Rightarrow> Inl e | Inr link \<Rightarrow>
      params c link)"

text \<open>
  Line 26, \<^verbatim>\<open>await SES.sendEmail(params).promise()\<close>: the statement completes
  normally, throws (an exception of either call, or the reason of a rejected promise,
  which \<^verbatim>\<open>await\<close> rethrows), or never resumes.
\<close>

datatype completion = Normal | Throw jserror | Never

definition await_send :: "runtime \<Rightarrow> ses_params \<Rightarrow> completion" where
  "await_send rt q =
     (case SES_sendEmail rt q of
        Inl e \<Rightarrow> Throw e
      | Inr (AWSRequest p) \<Rightarrow>
          (case p of
             Inl e \<Rightarrow> Throw e
           | Inr Fulfilled \<Rightarrow> Normal
           | Inr (Rejected e) \<Rightarrow> Throw e
           | Inr Pending \<Rightarrow> Never))"

text \<open>
  The function: an exception before the \<^verbatim>\<open>try\<close> rejects the function's promise;
  inside the \<^verbatim>\<open>try\<close>, whatever line 26 throws is caught, logged and answered.
\<close>

definition handler :: "runtime \<Rightarrow> jsval \<Rightarrow> outcome \<times> effect list" where
  "handler rt event =
     (case request rt event of
        Inl e \<Rightarrow> (Faulted e, [])
      | Inr q \<Rightarrow>
          (case await_send rt q of
             Normal \<Rightarrow>
               (Returned \<lparr>statusCode = 200, body = ''Email sent!''\<rparr>, [Call_sendEmail q])
           | Throw e \<Rightarrow>
               (Returned \<lparr>statusCode = 400, body = ''Sending failed''\<rparr>,
                [Call_sendEmail q, Console_error e])
           | Never \<Rightarrow> (Unsettled, [Call_sendEmail q])))"

text \<open>The requests the collaborator was called with, read off the effects.\<close>

fun sent_requests :: "effect list \<Rightarrow> ses_params list" where
  "sent_requests [] = []"
| "sent_requests (Call_sendEmail q # es) = q # sent_requests es"
| "sent_requests (Console_error e # es) = sent_requests es"

text \<open>What \<^verbatim>\<open>console.error\<close> was given, read off the effects.\<close>

fun logged_errors :: "effect list \<Rightarrow> jserror list" where
  "logged_errors [] = []"
| "logged_errors (Call_sendEmail q # es) = logged_errors es"
| "logged_errors (Console_error e # es) = e # logged_errors es"

subsection \<open>The vocabulary of the specification\<close>

text \<open>
  The specification speaks of a trigger payload: an object with a list of one or more
  records, whose first record carries a notification, whose message is a string. Its
  embedded message is that string.
\<close>

definition embedded_message :: "jsval \<Rightarrow> string option" where
  "embedded_message event =
     (case event of
        JObject ef \<Rightarrow>
          (case map_of ef ''Records'' of
             Some (JArray (JObject rf # rs)) \<Rightarrow>
               (case map_of rf ''Sns'' of
                  Some (JObject sf) \<Rightarrow>
                    (case map_of sf ''Message'' of Some (JString m) \<Rightarrow> Some m | _ \<Rightarrow> None)
                | _ \<Rightarrow> None)
           | _ \<Rightarrow> None)
      | _ \<Rightarrow> None)"

text \<open>
  The message of a well-formed event is JSON text decoding to an object in which the six
  fields \<^verbatim>\<open>first_name\<close>, \<^verbatim>\<open>last_name\<close>, \<^verbatim>\<open>password\<close>, \<^verbatim>\<open>username\<close>,
  \<^verbatim>\<open>email\<close>, \<^verbatim>\<open>token\<close> are strings; \<open>well_formed rt event p\<close> says so and
  names the six strings \<open>p\<close>.
\<close>

definition text_field :: "(string \<times> jsval) list \<Rightarrow> string \<Rightarrow> string option" where
  "text_field pf k = (case map_of pf k of Some (JString s) \<Rightarrow> Some s | _ \<Rightarrow> None)"

definition decoded_payload :: "jsval \<Rightarrow> string user_fields option" where
  "decoded_payload v =
     (case v of
        JObject pf \<Rightarrow>
          (case text_field pf ''first_name'' of None \<Rightarrow> None | Some a \<Rightarrow>
           case text_field pf ''last_name'' of None \<Rightarrow> None | Some b \<Rightarrow>
           case text_field pf ''password'' of None \<Rightarrow> None | Some c \<Rightarrow>
           case text_field pf ''username'' of None \<Rightarrow> None | Some d \<Rightarrow>
           case text_field pf ''email'' of None \<Rightarrow> None | Some f \<Rightarrow>
           case text_field pf ''token'' of None \<Rightarrow> None | Some g \<Rightarrow>
           Some \<lparr>first_name = a, last_name = b, password = c, username = d,
                 email = f, token = g\<rparr>)
      | _ \<Rightarrow> None)"

definition well_formed :: "runtime \<Rightarrow> jsval \<Rightarrow> string user_fields \<Rightarrow> bool" where
  "well_formed rt event p =
     (case embedded_message event of
        None \<Rightarrow> False
      | Some m \<Rightarrow>
          (case JSON_parse rt m of Inl e \<Rightarrow> False | Inr v \<Rightarrow> decoded_payload v = Some p))"

text \<open>
  How the send of a request ends for the caller: the promise is fulfilled, or it is
  rejected with a reason.
\<close>

definition resolves :: "runtime \<Rightarrow> ses_params \<Rightarrow> bool" where
  "resolves rt q = (SES_sendEmail rt q = Inr (AWSRequest (Inr Fulfilled)))"

definition rejects :: "runtime \<Rightarrow> ses_params \<Rightarrow> jserror \<Rightarrow> bool" where
  "rejects rt q e = (SES_sendEmail rt q = Inr (AWSRequest (Inr (Rejected e))))"

text \<open>
  Setting up the collaborator invocation: steps 2 and 3 of the specification, lines 9 to
  23 of the source, which build the verification link and the parameters from the
  destructured fields, before the \<^verbatim>\<open>try\<close> block. The setup fails with \<open>e\<close> when
  building the link or building the parameters throws \<open>e\<close>.
\<close>

definition setup_fails :: "jsval user_fields \<Rightarrow> jserror \<Rightarrow> bool" where
  "setup_fails c e =
     (case verificationLink c of Inl x \<Rightarrow> x = e | Inr link \<Rightarrow> params c link = Inl e)"

text \<open>
  An event conforms to the trigger payload of the specification when it has an embedded
  message and the message is JSON text decoding to an object with the six string fields.
  Every other event is malformed input.
\<close>

definition conforms :: "runtime \<Rightarrow> jsval \<Rightarrow> bool" where
  "conforms rt event =
     (case embedded_message event of
        None \<Rightarrow> False
      | Some m \<Rightarrow>
          (case JSON_parse rt m of Inl e \<Rightarrow> False | Inr v \<Rightarrow> decoded_payload v \<noteq> None))"

definition malformed :: "runtime \<Rightarrow> jsval \<Rightarrow> bool" where
  "malformed rt event = (\<not> conforms rt event)"

text \<open>
  The two kinds of malformed input that the specification names: the record list of the
  event object is missing, null or empty; the embedded message is not valid JSON.
\<close>

definition missing_record :: "jsval \<Rightarrow> bool" where
  "missing_record event =
     (case event of
        JObject ef \<Rightarrow>
          map_of ef ''Records'' = None \<or> map_of ef ''Records'' = Some JNull
          \<or> map_of ef ''Records'' = Some (JArray [])
      | _ \<Rightarrow> False)"

definition invalid_message :: "runtime \<Rightarrow> jsval \<Rightarrow> bool" where
  "invalid_message rt event =
     (case embedded_message event of
        None \<Rightarrow> False
      | Some m \<Rightarrow> (case JSON_parse rt m of Inl e \<Rightarrow> True | Inr v \<Rightarrow> False))"

text \<open>
  The malformed input on which the handler faults, described on the event itself. A value
  is absent when it is \<^verbatim>\<open>undefined\<close> or \<^verbatim>\<open>null\<close>. The part \<open>k\<close> of a value is
  its own property of that name (of an array or a string, with the name \<^verbatim>\<open>0\<close>, the
  first element), and \<^verbatim>\<open>undefined\<close> when there is none. The event is faulting when
  \<^item> the event, its record list, the first record of the list or the notification of that
    record is absent; or
  \<^item> the message cannot be converted to text, or its text is not valid JSON, or it
    decodes to an absent value; or
  \<^item> one of \<^verbatim>\<open>email\<close>, \<^verbatim>\<open>token\<close>, \<^verbatim>\<open>first_name\<close>, \<^verbatim>\<open>last_name\<close> of the
    decoded value cannot be converted to a string.
\<close>

definition absent :: "jsval \<Rightarrow> bool" where
  "absent v = (v = JUndefined \<or> v = JNull)"

fun part :: "jsval \<Rightarrow> string \<Rightarrow> jsval" where
  "part (JObject fs) k = (case map_of fs k of None \<Rightarrow> JUndefined | Some v \<Rightarrow> v)"
| "part (JArray xs) k =
     (if k = ''0'' then (case xs of [] \<Rightarrow> JUndefined | x # _ \<Rightarrow> x) else JUndefined)"
| "part (JString s) k =
     (if k = ''0'' then (case s of [] \<Rightarrow> JUndefined | c # _ \<Rightarrow> JString [c])
      else JUndefined)"
| "part v k = JUndefined"

definition first_record :: "jsval \<Rightarrow> jsval" where
  "first_record event = part (part event ''Records'') ''0''"

definition notification :: "jsval \<Rightarrow> jsval" where
  "notification event = part (first_record event) ''Sns''"

definition converts :: "jsval \<Rightarrow> bool" where
  "converts x = (case to_string x of Inl e \<Rightarrow> False | Inr s \<Rightarrow> True)"

definition faulting :: "runtime \<Rightarrow> jsval \<Rightarrow> bool" where
  "faulting rt event =
     (absent event \<or> absent (part event ''Records'') \<or> absent (first_record event)
      \<or> absent (notification event)
      \<or> (case to_string (part (notification event) ''Message'') of
            Inl e \<Rightarrow> True
          | Inr t \<Rightarrow>
              (case JSON_parse rt t of
                 Inl e \<Rightarrow> True
               | Inr v \<Rightarrow>
                   absent v \<or> \<not> converts (part v ''email'') \<or> \<not> converts (part v ''token'')
                   \<or> \<not> converts (part v ''first_name'')
                   \<or> \<not> converts (part v ''last_name''))))"

text \<open>
  A field of a decoded payload: only an object has fields of its own. The value bound to
  a missing field is \<^verbatim>\<open>undefined\<close>. The text a field contributes is the literal
  \<^verbatim>\<open>undefined\<close> when the field is missing, and the string its value converts to when
  it is there and converts.
\<close>

definition own_field :: "jsval \<Rightarrow> string \<Rightarrow> jsval option" where
  "own_field v k = (case v of JObject pf \<Rightarrow> map_of pf k | _ \<Rightarrow> None)"

definition field_value :: "jsval \<Rightarrow> string \<Rightarrow> jsval" where
  "field_value v k = (case own_field v k of None \<Rightarrow> JUndefined | Some x \<Rightarrow> x)"

definition rendering :: "jsval option \<Rightarrow> string option" where
  "rendering f =
     (case f of
        None \<Rightarrow> Some ''undefined''
      | Some x \<Rightarrow> (case to_string x of Inl e \<Rightarrow> None | Inr s \<Rightarrow> Some s))"

subsection \<open>Sample inputs\<close>

text \<open>
  An event with one record carrying the message \<open>m\<close>, the payload of the
  specification's scenario (Jane Doe), the same payload with other credentials, a payload
  without \<^verbatim>\<open>last_name\<close> and \<^verbatim>\<open>email\<close>, a payload whose \<^verbatim>\<open>email\<close> is an
  object with a property \<^verbatim>\<open>toString\<close>, and an event whose message is the number
  123 instead of a string.
\<close>

definition sns_event :: "string \<Rightarrow> jsval" where
  "sns_event m =
     JObject [(''Records'', JArray [JObject [(''Sns'', JObject [(''Message'', JString m)])]])]"

definition jane_text :: string where
  \<open>jane_text = ''{"first_name":"Jane","last_name":"Doe","password":"pw","username":"jdoe","email":"jane@x.com","token":"abc123"}''\<close>

definition jane_object :: jsval where
  "jane_object =
     JObject [(''first_name'', JString ''Jane''), (''last_name'', JString ''Doe''),
              (''password'', JString ''pw''), (''username'', JString ''jdoe''),
              (''email'', JString ''jane@x.com''), (''token'', JString ''abc123'')]"

definition jane :: "string user_fields" where
  "jane = \<lparr>first_name = ''Jane'', last_name = ''Doe'', password = ''pw'', username = ''jdoe'',
           email = ''jane@x.com'', token = ''abc123''\<rparr>"

definition jane_request :: ses_params where
  "jane_request =
     \<lparr>Destination = \<lparr>ToAddresses = [JString ''jane@x.com'']\<rparr>,
      Message =
        \<lparr>Body = \<lparr>Html = \<lparr>Data =
           ''<html><body>Hello Jane Doe,<br> Thank you for subscribing. To use the portal verify by clicking the below link.<br><br><a href=http://prod.polepeddiaravind.me/v1/verifyUserEmail?email=jane@x.com&token=abc123>Verify your account</a><br><br><br> Kind Regards,<br> <strong>Team CSYE6225!<strong></body></html>''\<rparr>\<rparr>,
         Subject = \<lparr>Data = ''Subscribe to the link to use service''\<rparr>\<rparr>,
      Source = ''aravind@yprod.polepeddiaravind.me''\<rparr>"

definition jane_renamed_text :: string where
  \<open>jane_renamed_text = ''{"first_name":"Jane","last_name":"Doe","password":"hunter2","username":"jd","email":"jane@x.com","token":"abc123"}''\<close>

definition jane_renamed_object :: jsval where
  "jane_renamed_object =
     JObject [(''first_name'', JString ''Jane''), (''last_name'', JString ''Doe''),
              (''password'', JString ''hunter2''), (''username'', JString ''jd''),
              (''email'', JString ''jane@x.com''), (''token'', JString ''abc123'')]"

definition jane_renamed :: "string user_fields" where
  "jane_renamed = \<lparr>first_name = ''Jane'', last_name = ''Doe'', password = ''hunter2'',
     username = ''jd'', email = ''jane@x.com'', token = ''abc123''\<rparr>"

definition partial_text :: string where
  \<open>partial_text = ''{"first_name":"Jane","token":"abc123"}''\<close>

definition partial_object :: jsval where
  "partial_object = JObject [(''first_name'', JString ''Jane''), (''token'', JString ''abc123'')]"

definition partial_request :: ses_params where
  "partial_request =
     \<lparr>Destination = \<lparr>ToAddresses = [JUndefined]\<rparr>,
      Message =
        \<lparr>Body = \<lparr>Html = \<lparr>Data =
           ''<html><body>Hello Jane undefined,<br> Thank you for subscribing. To use the portal verify by clicking the below link.<br><br><a href=http://prod.polepeddiaravind.me/v1/verifyUserEmail?email=undefined&token=abc123>Verify your account</a><br><br><br> Kind Regards,<br> <strong>Team CSYE6225!<strong></body></html>''\<rparr>\<rparr>,
         Subject = \<lparr>Data = ''Subscribe to the link to use service''\<rparr>\<rparr>,
      Source = ''aravind@yprod.polepeddiaravind.me''\<rparr>"

definition shadowing_text :: string where
  \<open>shadowing_text = ''{"email":{"toString":"x"}}''\<close>

definition shadowing_object :: jsval where
  "shadowing_object = JObject [(''email'', JObject [(''toString'', JString ''x'')])]"

definition shadowing_fields :: "jsval user_fields" where
  "shadowing_fields =
     \<lparr>first_name = JUndefined, last_name = JUndefined, password = JUndefined,
      username = JUndefined, email = JObject [(''toString'', JString ''x'')],
      token = JUndefined\<rparr>"

definition number_event :: jsval where
  "number_event =
     JObject [(''Records'', JArray [JObject [(''Sns'', JObject [(''Message'', JNumber ''123'')])]])]"

definition undefined_request :: ses_params where
  "undefined_request =
     \<lparr>Destination = \<lparr>ToAddresses = [JUndefined]\<rparr>,
      Message =
        \<lparr>Body = \<lparr>Html = \<lparr>Data =
           ''<html><body>Hello undefined undefined,<br> Thank you for subscribing. To use the portal verify by clicking the below link.<br><br><a href=http://prod.polepeddiaravind.me/v1/verifyUserEmail?email=undefined&token=undefined>Verify your account</a><br><br><br> Kind Regards,<br> <strong>Team CSYE6225!<strong></body></html>''\<rparr>\<rparr>,
         Subject = \<lparr>Data = ''Subscribe to the link to use service''\<rparr>\<rparr>,
      Source = ''aravind@yprod.polepeddiaravind.me''\<rparr>"

text \<open>
  \<^verbatim>\<open>JSON.parse\<close> tabulated on the sample texts; any other text used below is not JSON.
\<close>

definition sample_parse :: "string \<Rightarrow> jserror + jsval" where
  "sample_parse s =
     (if s = jane_text then Inr jane_object
      else if s = jane_renamed_text then Inr jane_renamed_object
      else if s = partial_text then Inr partial_object
      else if s = shadowing_text then Inr shadowing_object
      else if s = ''null'' then Inr JNull
      else if s = ''123'' then Inr (JNumber ''123'')
      else Inl SyntaxError)"

definition runtime_of :: "(ses_params \<Rightarrow> jserror + aws_request) \<Rightarrow> runtime" where
  "runtime_of ses = \<lparr>JSON_parse = sample_parse, SES_sendEmail = ses\<rparr>"

text \<open>
  Two clients: one whose send succeeds and one whose send is rejected.
\<close>

definition resolving_ses :: "ses_params \<Rightarrow> jserror + aws_request" where
  "resolving_ses q = Inr (AWSRequest (Inr Fulfilled))"

definition rejecting_ses :: "ses_params \<Rightarrow> jserror + aws_request" where
  "rejecting_ses q = Inr (AWSRequest (Inr (Rejected (Thrown (JString ''MessageRejected'')))))"

definition two_records_event :: jsval where
  "two_records_event =
     JObject [(''Records'',
       JArray [JObject [(''Sns'', JObject [(''Message'', JString jane_text)])],
               JObject [(''Sns'', JObject [(''Message'', JString partial_text)])]])]"

section \<open>The stages of the handler\<close>

subsection \<open>Reading the event\<close>

lemma embedded_messageD:
  "embedded_message event = Some m \<Longrightarrow>
   \<exists>ef rf rs sf. event = JObject ef \<and> map_of ef ''Records'' = Some (JArray (JObject rf # rs))
     \<and> map_of rf ''Sns'' = Some (JObject sf) \<and> map_of sf ''Message'' = Some (JString m)"
  by (auto simp: embedded_message_def split: jsval.splits option.splits list.splits)

lemma payload_fields_message:
  "embedded_message event = Some m \<Longrightarrow>
   payload_fields rt event =
     (case JSON_parse rt m of Inl e \<Rightarrow> Inl e | Inr v \<Rightarrow> destructure v)"
  by (auto simp: payload_fields_def dest!: embedded_messageD)

lemma destructure_decoded:
  "decoded_payload v = Some p \<Longrightarrow>
   destructure v = Inr \<lparr>first_name = JString (first_name p), last_name = JString (last_name p),
      password = JString (password p), username = JString (username p),
      email = JString (email p), token = JString (token p)\<rparr>"
  by (auto simp: decoded_payload_def destructure_def text_field_def split: jsval.splits option.splits)

lemma destructure_fields:
  "v \<noteq> JNull \<Longrightarrow> v \<noteq> JUndefined \<Longrightarrow>
   destructure v =
     Inr \<lparr>first_name = field_value v ''first_name'', last_name = field_value v ''last_name'',
          password = field_value v ''password'', username = field_value v ''username'',
          email = field_value v ''email'', token = field_value v ''token''\<rparr>"
  by (cases v) (simp_all add: destructure_def field_value_def own_field_def)

lemma to_string_rendering:
  "rendering (own_field v k) = Some s \<Longrightarrow> to_string (field_value v k) = Inr s"
  by (auto simp: rendering_def field_value_def split: option.splits sum.splits)

lemma missing_record_faults:
  "missing_record event \<Longrightarrow> payload_fields rt event = Inl TypeError"
  by (auto simp: missing_record_def payload_fields_def split: jsval.splits)

lemma invalid_message_faults:
  "invalid_message rt event \<Longrightarrow> \<exists>e. payload_fields rt event = Inl e"
  by (auto simp: invalid_message_def payload_fields_message split: option.splits sum.splits)

subsection \<open>When the steps before the send throw\<close>

lemma js_get_part: "js_get v k = (if absent v then Inl TypeError else Inr (part v k))"
  by (cases v) (simp_all add: absent_def)

lemma payload_fields_part:
  "payload_fields rt event =
     (if absent event \<or> absent (part event ''Records'') \<or> absent (first_record event)
         \<or> absent (notification event)
      then Inl TypeError
      else (case to_string (part (notification event) ''Message'') of
              Inl e \<Rightarrow> Inl e
            | Inr t \<Rightarrow> (case JSON_parse rt t of Inl e \<Rightarrow> Inl e | Inr v \<Rightarrow> destructure v)))"
  by (simp add: payload_fields_def js_get_part first_record_def notification_def)

lemma destructure_part:
  "destructure v =
     (if absent v then Inl TypeError
      else Inr \<lparr>first_name = part v ''first_name'', last_name = part v ''last_name'',
                password = part v ''password'', username = part v ''username'',
                email = part v ''email'', token = part v ''token''\<rparr>)"
  by (simp add: destructure_def js_get_part)

lemma build_throws_iff:
  "(\<exists>e. (case verificationLink c of Inl e \<Rightarrow> Inl e | Inr link \<Rightarrow> params c link) = Inl e)
   \<longleftrightarrow> \<not> converts (email c) \<or> \<not> converts (token c)
       \<or> \<not> converts (first_name c) \<or> \<not> converts (last_name c)"
  by (auto simp: verificationLink_def params_def converts_def split: sum.splits)

lemma request_throws_iff: "(\<exists>e. request rt event = Inl e) \<longleftrightarrow> faulting rt event"
proof (cases "absent event \<or> absent (part event ''Records'') \<or> absent (first_record event)
    \<or> absent (notification event)")
  case True
  then show ?thesis
    by (auto simp: request_def payload_fields_part faulting_def)
next
  case False
  note unread = this
  show ?thesis
  proof (cases "to_string (part (notification event) ''Message'')")
    case (Inl e)
    with unread show ?thesis
      by (simp add: request_def payload_fields_part faulting_def)
  next
    case (Inr t)
    note conv = this
    show ?thesis
    proof (cases "JSON_parse rt t")
      case (Inl e)
      with unread conv show ?thesis
        by (simp add: request_def payload_fields_part faulting_def)
    next
      case (Inr v)
      show ?thesis
      proof (cases "absent v")
        case True
        with unread conv Inr show ?thesis
          by (simp add: request_def payload_fields_part faulting_def destructure_part)
      next
        case False
        with unread conv Inr show ?thesis
          using build_throws_iff [of "\<lparr>first_name = part v ''first_name'',
            last_name = part v ''last_name'', password = part v ''password'',
            username = part v ''username'', email = part v ''email'',
            token = part v ''token''\<rparr>"]
          by (simp add: request_def payload_fields_part faulting_def destructure_part)
      qed
    qed
  qed
qed

lemma conforms_well_formed: "conforms rt event \<Longrightarrow> \<exists>p. well_formed rt event p"
  by (auto simp: conforms_def well_formed_def split: option.splits sum.splits)

subsection \<open>The request of a well-formed event\<close>

lemma request_well_formed:
  assumes "well_formed rt event p"
  shows "request rt event =
     Inr \<lparr>Destination = \<lparr>ToAddresses = [JString (email p)]\<rparr>,
          Message =
            \<lparr>Body = \<lparr>Html = \<lparr>Data =
               ''<html><body>Hello '' @ first_name p @ '' '' @ last_name p
               @ '',<br> Thank you for subscribing. To use the portal verify by clicking the below link.<br><br><a href=''
               @ (''http://prod.polepeddiaravind.me/v1/verifyUserEmail?email='' @ email p
                  @ ''&token='' @ token p)
               @ ''>Verify your account</a><br><br><br> Kind Regards,<br> <strong>Team CSYE6225!<strong></body></html>''\<rparr>\<rparr>,
             Subject = \<lparr>Data = ''Subscribe to the link to use service''\<rparr>\<rparr>,
          Source = ''aravind@yprod.polepeddiaravind.me''\<rparr>"
proof -
  from assms obtain m v where m: "embedded_message event = Some m"
    and v: "JSON_parse rt m = Inr v" and p: "decoded_payload v = Some p"
    by (auto simp: well_formed_def split: option.splits sum.splits)
  have "payload_fields rt event = destructure v"
    using payload_fields_message [OF m, of rt] v by simp
  then show ?thesis
    by (simp add: request_def destructure_decoded [OF p] verificationLink_def params_def)
qed

subsection \<open>The send and the answer\<close>

lemma handler_request:
  "request rt event = Inr q \<Longrightarrow>
   handler rt event =
     (case await_send rt q of
        Normal \<Rightarrow>
          (Returned \<lparr>statusCode = 200, body = ''Email sent!''\<rparr>, [Call_sendEmail q])
      | Throw e \<Rightarrow>
          (Returned \<lparr>statusCode = 400, body = ''Sending failed''\<rparr>,
           [Call_sendEmail q, Console_error e])
      | Never \<Rightarrow> (Unsettled, [Call_sendEmail q]))"
  by (simp add: handler_def)

lemma sent_requests_handler:
  "request rt event = Inr q \<Longrightarrow> sent_requests (snd (handler rt event)) = [q]"
  by (simp add: handler_def split: completion.splits)

lemma handler_faults_iff:
  "fst (handler rt event) = Faulted x \<longleftrightarrow> request rt event = Inl x"
  by (auto simp: handler_def split: sum.splits completion.splits)

lemma await_send_resolves: "resolves rt q \<Longrightarrow> await_send rt q = Normal"
  by (simp add: resolves_def await_send_def)

lemma await_send_rejects: "rejects rt q e \<Longrightarrow> await_send rt q = Throw e"
  by (simp add: rejects_def await_send_def)

subsection \<open>The sample inputs evaluated\<close>

lemma sample_parse_values:
  "sample_parse jane_text = Inr jane_object"
  "sample_parse jane_renamed_text = Inr jane_renamed_object"
  "sample_parse partial_text = Inr partial_object"
  "sample_parse shadowing_text = Inr shadowing_object"
  "sample_parse ''null'' = Inr JNull"
  "sample_parse ''123'' = Inr (JNumber ''123'')"
  "sample_parse ''not json'' = Inl SyntaxError"
  by (simp_all add: sample_parse_def jane_text_def jane_renamed_text_def partial_text_def
      shadowing_text_def)

lemma runtime_of_simps:
  "JSON_parse (runtime_of ses) = sample_parse"
  "SES_sendEmail (runtime_of ses) = ses"
  by (simp_all add: runtime_of_def)

lemma jane_well_formed: "well_formed (runtime_of ses) (sns_event jane_text) jane"
  by (simp add: well_formed_def embedded_message_def sns_event_def runtime_of_simps
      sample_parse_values decoded_payload_def jane_object_def text_field_def jane_def)

lemma jane_request: "request (runtime_of ses) (sns_event jane_text) = Inr jane_request"
  by (simp add: request_well_formed [OF jane_well_formed] jane_def jane_request_def)

section \<open>The claims\<close>

text \<open>
  C1. For every well-formed event payload, if the email collaborator resolves
  successfully, the handler returns \<^verbatim>\<open>{statusCode: 200, body: 'Email sent!'}\<close>, and
  the collaborator is invoked exactly once, with a destination equal to the payload's
  \<^verbatim>\<open>email\<close> field. The theorem: the handler of a well-formed event calls
  \<^verbatim>\<open>sendEmail\<close> with exactly one request \<open>q\<close>, whose destination list is the
  payload's email; if the send of \<open>q\<close> resolves, the handler returns the 200 object
  and has done nothing but that one call.
\<close>

theorem handler_success:
  assumes "well_formed rt event p"
  shows "\<exists>q. ToAddresses (Destination q) = [JString (email p)]
    \<and> sent_requests (snd (handler rt event)) = [q]
    \<and> (resolves rt q \<longrightarrow>
         handler rt event =
           (Returned \<lparr>statusCode = 200, body = ''Email sent!''\<rparr>, [Call_sendEmail q]))"
proof -
  from request_well_formed [OF assms] obtain q
    where q: "request rt event = Inr q"
      and d: "ToAddresses (Destination q) = [JString (email p)]"
    by simp
  have "resolves rt q \<longrightarrow>
      handler rt event =
        (Returned \<lparr>statusCode = 200, body = ''Email sent!''\<rparr>, [Call_sendEmail q])"
    by (simp add: handler_request [OF q] await_send_resolves)
  with d sent_requests_handler [OF q] show ?thesis by blast
qed

theorem handler_success_witness:
  "well_formed (runtime_of resolving_ses) (sns_event jane_text) jane
   \<and> resolves (runtime_of resolving_ses) jane_request
   \<and> handler (runtime_of resolving_ses) (sns_event jane_text) =
       (Returned \<lparr>statusCode = 200, body = ''Email sent!''\<rparr>, [Call_sendEmail jane_request])"
proof -
  have r: "resolves (runtime_of resolving_ses) q" for q
    by (simp add: resolves_def runtime_of_simps resolving_ses_def)
  from handler_success [OF jane_well_formed, of resolving_ses] obtain q
    where "sent_requests (snd (handler (runtime_of resolving_ses) (sns_event jane_text))) = [q]"
      and "resolves (runtime_of resolving_ses) q \<longrightarrow>
         handler (runtime_of resolving_ses) (sns_event jane_text) =
           (Returned \<lparr>statusCode = 200, body = ''Email sent!''\<rparr>, [Call_sendEmail q])"
    by blast
  moreover have "sent_requests (snd (handler (runtime_of resolving_ses) (sns_event jane_text)))
      = [jane_request]"
    by (rule sent_requests_handler [OF jane_request])
  ultimately show ?thesis using r jane_well_formed by simp
qed

text \<open>
  C2. For every well-formed event payload, if the email collaborator rejects, with any
  reason, the handler catches the rejection, returns
  \<^verbatim>\<open>{statusCode: 400, body: 'Sending failed'}\<close> and does not propagate the rejection:
  its outcome is a returned object, not a fault, and the reason is only logged.
\<close>

theorem handler_send_rejected:
  assumes "well_formed rt event p"
  shows "\<exists>q. sent_requests (snd (handler rt event)) = [q]
    \<and> (\<forall>e. rejects rt q e \<longrightarrow>
         handler rt event =
           (Returned \<lparr>statusCode = 400, body = ''Sending failed''\<rparr>,
            [Call_sendEmail q, Console_error e]))"
proof -
  from request_well_formed [OF assms] obtain q
    where q: "request rt event = Inr q"
    by simp
  have "\<forall>e. rejects rt q e \<longrightarrow>
      handler rt event =
        (Returned \<lparr>statusCode = 400, body = ''Sending failed''\<rparr>,
         [Call_sendEmail q, Console_error e])"
    by (simp add: handler_request [OF q] await_send_rejects)
  with sent_requests_handler [OF q] show ?thesis by blast
qed

theorem handler_send_rejected_witness:
  "well_formed (runtime_of rejecting_ses) (sns_event jane_text) jane
   \<and> rejects (runtime_of rejecting_ses) jane_request (Thrown (JString ''MessageRejected''))
   \<and> handler (runtime_of rejecting_ses) (sns_event jane_text) =
       (Returned \<lparr>statusCode = 400, body = ''Sending failed''\<rparr>,
        [Call_sendEmail jane_request, Console_error (Thrown (JString ''MessageRejected''))])"
proof -
  let ?rt = "runtime_of rejecting_ses"
  have r: "rejects ?rt q (Thrown (JString ''MessageRejected''))" for q
    by (simp add: rejects_def runtime_of_simps rejecting_ses_def)
  from handler_send_rejected [OF jane_well_formed, of rejecting_ses] obtain q
    where s: "sent_requests (snd (handler ?rt (sns_event jane_text))) = [q]"
      and h: "\<forall>e. rejects ?rt q e \<longrightarrow>
         handler ?rt (sns_event jane_text) =
           (Returned \<lparr>statusCode = 400, body = ''Sending failed''\<rparr>,
            [Call_sendEmail q, Console_error e])"
    by blast
  have "sent_requests (snd (handler ?rt (sns_event jane_text))) = [jane_request]"
    by (rule sent_requests_handler [OF jane_request])
  with s have "q = jane_request" by simp
  with h r jane_well_formed show ?thesis by blast
qed

text \<open>
  C3. The claim: for every malformed input event (for example an empty record list, or
  an embedded message that is not valid JSON) the handler faults instead of returning a
  result object. Read of every event that does not conform to the trigger payload, the
  code does otherwise. An event whose message is the number 123 instead of a string is
  malformed; \<^verbatim>\<open>JSON.parse\<close> converts the number to the text \<^verbatim>\<open>123\<close> and decodes
  it to 123, destructuring a number binds six times \<^verbatim>\<open>undefined\<close>, and the mail is
  requested: the handler returns the 200 object when the send resolves and the 400
  object when it is rejected.
\<close>

theorem malformed_input_counterexample:
  "malformed (runtime_of resolving_ses) number_event
   \<and> handler (runtime_of resolving_ses) number_event =
       (Returned \<lparr>statusCode = 200, body = ''Email sent!''\<rparr>,
        [Call_sendEmail undefined_request])
   \<and> malformed (runtime_of rejecting_ses) number_event
   \<and> handler (runtime_of rejecting_ses) number_event =
       (Returned \<lparr>statusCode = 400, body = ''Sending failed''\<rparr>,
        [Call_sendEmail undefined_request, Console_error (Thrown (JString ''MessageRejected''))])"
proof -
  have m: "malformed (runtime_of ses) number_event" for ses
    by (simp add: malformed_def conforms_def embedded_message_def number_event_def)
  have q: "request (runtime_of ses) number_event = Inr undefined_request" for ses
    by (simp add: request_def payload_fields_def number_event_def runtime_of_simps
        sample_parse_values destructure_def verificationLink_def params_def
        undefined_request_def)
  have 1: "await_send (runtime_of resolving_ses) undefined_request = Normal"
    by (simp add: await_send_def runtime_of_simps resolving_ses_def)
  have 2: "await_send (runtime_of rejecting_ses) undefined_request =
      Throw (Thrown (JString ''MessageRejected''))"
    by (simp add: await_send_def runtime_of_simps rejecting_ses_def)
  from m show ?thesis
    by (simp add: handler_request [OF q] 1 2)
qed

text \<open>
  C3 as amended. The handler faults, returning no result object and calling no
  collaborator, exactly on the faulting events: the event, its record list, the first
  record of the list or that record's notification is missing or null; or the message
  cannot be converted to text that is valid JSON, or decodes to null; or one of the four
  fields the handler renders cannot be converted to a string. Every faulting event is
  malformed input, and the two kinds the specification names (no first record in the
  list, an embedded message that is not valid JSON) are faulting. Malformed input that
  is not faulting, such as a numeric message whose text is valid JSON, or a payload
  without the fields, does not fault.
\<close>

theorem faulting_input_faults:
  "((\<exists>e. fst (handler rt event) = Faulted e) \<longleftrightarrow> faulting rt event)
   \<and> (faulting rt event \<longrightarrow>
        malformed rt event \<and> (\<exists>e. handler rt event = (Faulted e, [])))
   \<and> (missing_record event \<or> invalid_message rt event \<longrightarrow> faulting rt event)"
proof (intro conjI impI)
  show "(\<exists>e. fst (handler rt event) = Faulted e) \<longleftrightarrow> faulting rt event"
    by (simp add: handler_faults_iff request_throws_iff)
next
  assume f: "faulting rt event"
  then obtain e where e: "request rt event = Inl e"
    using request_throws_iff [of rt event] by blast
  show "malformed rt event"
  proof (unfold malformed_def, rule notI)
    assume "conforms rt event"
    then obtain p where "well_formed rt event p"
      using conforms_well_formed by blast
    from request_well_formed [OF this] e show False by simp
  qed
  from e show "\<exists>e. handler rt event = (Faulted e, [])"
    by (simp add: handler_def)
next
  assume "missing_record event \<or> invalid_message rt event"
  then have "\<exists>e. payload_fields rt event = Inl e"
    using missing_record_faults [of event rt] invalid_message_faults [of rt event] by blast
  then have "\<exists>e. request rt event = Inl e"
    by (auto simp: request_def)
  then show "faulting rt event"
    by (simp add: request_throws_iff)
qed

theorem faulting_input_faults_witness:
  "missing_record (JObject [(''Records'', JArray [])])
   \<and> faulting (runtime_of resolving_ses) (JObject [(''Records'', JArray [])])
   \<and> malformed (runtime_of resolving_ses) (JObject [(''Records'', JArray [])])
   \<and> handler (runtime_of resolving_ses) (JObject [(''Records'', JArray [])]) =
       (Faulted TypeError, [])
   \<and> invalid_message (runtime_of resolving_ses) (sns_event ''not json'')
   \<and> faulting (runtime_of resolving_ses) (sns_event ''not json'')
   \<and> malformed (runtime_of resolving_ses) (sns_event ''not json'')
   \<and> handler (runtime_of resolving_ses) (sns_event ''not json'') = (Faulted SyntaxError, [])"
proof -
  let ?rt = "runtime_of resolving_ses"
  let ?e = "JObject [(''Records'', JArray [])]"
  let ?n = "sns_event ''not json''"
  have m1: "missing_record ?e"
    by (simp add: missing_record_def)
  have m2: "invalid_message ?rt ?n"
    by (simp add: invalid_message_def embedded_message_def sns_event_def runtime_of_simps
        sample_parse_values)
  have r1: "request ?rt ?e = Inl TypeError"
    by (simp add: request_def payload_fields_def)
  have r2: "request ?rt ?n = Inl SyntaxError"
    by (simp add: request_def payload_fields_def sns_event_def runtime_of_simps
        sample_parse_values)
  note t1 = faulting_input_faults [of ?rt ?e]
  note t2 = faulting_input_faults [of ?rt ?n]
  from t1 m1 have f1: "faulting ?rt ?e" by blast
  from t2 m2 have f2: "faulting ?rt ?n" by blast
  from t1 f1 have g1: "malformed ?rt ?e" by blast
  from t2 f2 have g2: "malformed ?rt ?n" by blast
  from r1 have h1: "handler ?rt ?e = (Faulted TypeError, [])"
    by (simp add: handler_def)
  from r2 have h2: "handler ?rt ?n = (Faulted SyntaxError, [])"
    by (simp add: handler_def)
  from m1 f1 g1 h1 m2 f2 g2 h2 show ?thesis by blast
qed

text \<open>
  C4. For every well-formed payload, the verification URL embedded in the email body is
  exactly \<^verbatim>\<open>http://prod.polepeddiaravind.me/v1/verifyUserEmail?email=\<close> followed by
  the email, \<^verbatim>\<open>&token=\<close> and the token: plain concatenation, with no
  percent-encoding or other change to the two values. The theorem gives the whole body of
  the one request sent, the URL standing between \<^verbatim>\<open><a href=\<close> and \<^verbatim>\<open>>\<close>.
\<close>

theorem verification_link_exact:
  assumes "well_formed rt event p"
  shows "\<exists>q. sent_requests (snd (handler rt event)) = [q]
    \<and> Data (Html (Body (Message q))) =
        ''<html><body>Hello '' @ first_name p @ '' '' @ last_name p
        @ '',<br> Thank you for subscribing. To use the portal verify by clicking the below link.<br><br><a href=''
        @ (''http://prod.polepeddiaravind.me/v1/verifyUserEmail?email='' @ email p
           @ ''&token='' @ token p)
        @ ''>Verify your account</a><br><br><br> Kind Regards,<br> <strong>Team CSYE6225!<strong></body></html>''"
proof -
  note q = request_well_formed [OF assms]
  show ?thesis
    by (rule exI, rule conjI, rule sent_requests_handler [OF q]) simp
qed

theorem verification_link_exact_witness:
  "well_formed (runtime_of rejecting_ses) (sns_event jane_text) jane
   \<and> sent_requests (snd (handler (runtime_of rejecting_ses) (sns_event jane_text))) = [jane_request]
   \<and> Data (Html (Body (Message jane_request))) =
        ''<html><body>Hello '' @ ''Jane'' @ '' '' @ ''Doe''
        @ '',<br> Thank you for subscribing. To use the portal verify by clicking the below link.<br><br><a href=''
        @ (''http://prod.polepeddiaravind.me/v1/verifyUserEmail?email='' @ ''jane@x.com''
           @ ''&token='' @ ''abc123'')
        @ ''>Verify your account</a><br><br><br> Kind Regards,<br> <strong>Team CSYE6225!<strong></body></html>''"
proof -
  from verification_link_exact [OF jane_well_formed, of rejecting_ses] obtain q
    where s: "sent_requests (snd (handler (runtime_of rejecting_ses) (sns_event jane_text))) = [q]"
      and d: "Data (Html (Body (Message q))) =
        ''<html><body>Hello '' @ first_name jane @ '' '' @ last_name jane
        @ '',<br> Thank you for subscribing. To use the portal verify by clicking the below link.<br><br><a href=''
        @ (''http://prod.polepeddiaravind.me/v1/verifyUserEmail?email='' @ email jane
           @ ''&token='' @ token jane)
        @ ''>Verify your account</a><br><br><br> Kind Regards,<br> <strong>Team CSYE6225!<strong></body></html>''"
    by blast
  have "sent_requests (snd (handler (runtime_of rejecting_ses) (sns_event jane_text)))
      = [jane_request]"
    by (rule sent_requests_handler [OF jane_request])
  with s have "q = jane_request" by simp
  with s d jane_well_formed show ?thesis by (simp add: jane_def)
qed

text \<open>
  C5. For every well-formed payload, the rendered HTML body contains the payload's
  \<^verbatim>\<open>first_name\<close> and \<^verbatim>\<open>last_name\<close> and the verification URL as substrings,
  while the subject and the sender address are fixed constants that do not depend on the
  payload.
\<close>

theorem body_embeds_fields:
  assumes "well_formed rt event p"
  shows "\<exists>q. sent_requests (snd (handler rt event)) = [q]
    \<and> sublist (first_name p) (Data (Html (Body (Message q))))
    \<and> sublist (last_name p) (Data (Html (Body (Message q))))
    \<and> sublist (''http://prod.polepeddiaravind.me/v1/verifyUserEmail?email='' @ email p
                @ ''&token='' @ token p)
         (Data (Html (Body (Message q))))
    \<and> Data (Subject (Message q)) = ''Subscribe to the link to use service''
    \<and> Source q = ''aravind@yprod.polepeddiaravind.me''"
proof -
  note q = request_well_formed [OF assms]
  have a: "sublist x (pre @ x @ post)" for x pre post :: string
    by (rule sublist_appendI)
  have b: "sublist y (pre @ x @ mid @ y @ post)" for x y pre mid post :: string
    using sublist_appendI [of y "pre @ x @ mid" post] by simp
  have c: "sublist z (pre @ x @ mid @ y @ mid2 @ z @ post)" for x y z pre mid mid2 post :: string
    using sublist_appendI [of z "pre @ x @ mid @ y @ mid2" post] by simp
  show ?thesis
    apply (rule exI, rule conjI, rule sent_requests_handler [OF q])
    apply (simp only: ses_params.simps message.simps body.simps content.simps)
    apply (intro conjI a b c refl)
    done
qed

theorem body_embeds_fields_witness:
  "well_formed (runtime_of resolving_ses) (sns_event jane_text) jane
   \<and> sent_requests (snd (handler (runtime_of resolving_ses) (sns_event jane_text))) = [jane_request]
   \<and> sublist ''Jane'' (Data (Html (Body (Message jane_request))))
   \<and> sublist ''Doe'' (Data (Html (Body (Message jane_request))))
   \<and> sublist ''http://prod.polepeddiaravind.me/v1/verifyUserEmail?email=jane@x.com&token=abc123''
        (Data (Html (Body (Message jane_request))))
   \<and> Data (Subject (Message jane_request)) = ''Subscribe to the link to use service''
   \<and> Source jane_request = ''aravind@yprod.polepeddiaravind.me''"
proof -
  from body_embeds_fields [OF jane_well_formed, of resolving_ses] obtain q
    where s: "sent_requests (snd (handler (runtime_of resolving_ses) (sns_event jane_text))) = [q]"
      and d: "sublist (first_name jane) (Data (Html (Body (Message q))))"
        "sublist (last_name jane) (Data (Html (Body (Message q))))"
        "sublist (''http://prod.polepeddiaravind.me/v1/verifyUserEmail?email='' @ email jane
                @ ''&token='' @ token jane)
         (Data (Html (Body (Message q))))"
        "Data (Subject (Message q)) = ''Subscribe to the link to use service''"
        "Source q = ''aravind@yprod.polepeddiaravind.me''"
    by blast
  have "sent_requests (snd (handler (runtime_of resolving_ses) (sns_event jane_text)))
      = [jane_request]"
    by (rule sent_requests_handler [OF jane_request])
  with s have "q = jane_request" by simp
  with s d jane_well_formed show ?thesis by (simp add: jane_def)
qed

text \<open>
  C6. A failure thrown while the collaborator invocation is set up, as opposed to a
  rejection of the send, propagates as an unhandled fault instead of becoming the 400
  result; only rejections of the send are swallowed into
  \<^verbatim>\<open>{statusCode: 400, body: 'Sending failed'}\<close>. The setup is the building of the
  link and of the parameters, lines 9 to 23, which stand before the \<^verbatim>\<open>try\<close> block.
  The theorem: when the payload has been read and the setup throws \<open>e\<close>, the handler
  faults with \<open>e\<close> and has called and logged nothing; when the send of the request
  is rejected, the handler returns the 400 object; and whenever the handler returns a
  result with status 400, the setup had succeeded with a request \<open>q\<close>, and it was the
  awaited send of \<open>q\<close> on line 26 that threw.
\<close>

theorem setup_failure_faults:
  "(payload_fields rt event = Inr c \<and> setup_fails c e \<longrightarrow>
      handler rt event = (Faulted e, []))
   \<and> (request rt event = Inr q \<and> rejects rt q x \<longrightarrow>
        handler rt event =
          (Returned \<lparr>statusCode = 400, body = ''Sending failed''\<rparr>,
           [Call_sendEmail q, Console_error x]))
   \<and> (fst (handler rt event) = Returned r \<and> statusCode r = 400 \<longrightarrow>
        (\<exists>q' y. request rt event = Inr q' \<and> await_send rt q' = Throw y
           \<and> snd (handler rt event) = [Call_sendEmail q', Console_error y]))"
proof (intro conjI impI)
  assume "payload_fields rt event = Inr c \<and> setup_fails c e"
  then have "request rt event = Inl e"
    by (auto simp: request_def setup_fails_def split: sum.splits)
  then show "handler rt event = (Faulted e, [])"
    by (simp add: handler_def)
next
  assume a: "request rt event = Inr q \<and> rejects rt q x"
  then have "await_send rt q = Throw x"
    by (simp add: await_send_rejects)
  with a show "handler rt event =
      (Returned \<lparr>statusCode = 400, body = ''Sending failed''\<rparr>,
       [Call_sendEmail q, Console_error x])"
    by (simp add: handler_request)
next
  assume "fst (handler rt event) = Returned r \<and> statusCode r = 400"
  then show "\<exists>q' y. request rt event = Inr q' \<and> await_send rt q' = Throw y
      \<and> snd (handler rt event) = [Call_sendEmail q', Console_error y]"
    by (auto simp: handler_def split: sum.splits completion.splits)
qed

theorem setup_failure_faults_witness:
  "payload_fields (runtime_of rejecting_ses) (sns_event shadowing_text) = Inr shadowing_fields
   \<and> setup_fails shadowing_fields TypeError
   \<and> handler (runtime_of rejecting_ses) (sns_event shadowing_text) = (Faulted TypeError, [])
   \<and> request (runtime_of rejecting_ses) (sns_event jane_text) = Inr jane_request
   \<and> rejects (runtime_of rejecting_ses) jane_request (Thrown (JString ''MessageRejected''))
   \<and> handler (runtime_of rejecting_ses) (sns_event jane_text) =
       (Returned \<lparr>statusCode = 400, body = ''Sending failed''\<rparr>,
        [Call_sendEmail jane_request, Console_error (Thrown (JString ''MessageRejected''))])
   \<and> statusCode \<lparr>statusCode = 400, body = ''Sending failed''\<rparr> = 400
   \<and> await_send (runtime_of rejecting_ses) jane_request =
       Throw (Thrown (JString ''MessageRejected''))"
proof -
  let ?rt = "runtime_of rejecting_ses"
  let ?x = "Thrown (JString ''MessageRejected'')"
  have p: "payload_fields ?rt (sns_event shadowing_text) = Inr shadowing_fields"
    by (simp add: payload_fields_def sns_event_def runtime_of_simps sample_parse_values
        destructure_def shadowing_object_def shadowing_fields_def)
  have s: "setup_fails shadowing_fields TypeError"
    by (simp add: setup_fails_def verificationLink_def shadowing_fields_def)
  have r: "rejects ?rt jane_request ?x"
    by (simp add: rejects_def runtime_of_simps rejecting_ses_def)
  from setup_failure_faults [of ?rt "sns_event shadowing_text" shadowing_fields TypeError] p s
  have h1: "handler ?rt (sns_event shadowing_text) = (Faulted TypeError, [])"
    by blast
  from setup_failure_faults [of ?rt "sns_event jane_text" _ _ jane_request ?x]
    jane_request [of rejecting_ses] r
  have h2: "handler ?rt (sns_event jane_text) =
      (Returned \<lparr>statusCode = 400, body = ''Sending failed''\<rparr>,
       [Call_sendEmail jane_request, Console_error ?x])"
    by blast
  from setup_failure_faults [of ?rt "sns_event jane_text" _ _ _ _
      "\<lparr>statusCode = 400, body = ''Sending failed''\<rparr>"] h2
  obtain q' y where "request ?rt (sns_event jane_text) = Inr q'"
    and "await_send ?rt q' = Throw y"
    and "snd (handler ?rt (sns_event jane_text)) = [Call_sendEmail q', Console_error y]"
    by auto
  with h2 have a: "await_send ?rt jane_request = Throw ?x"
    by simp
  from p s h1 jane_request [of rejecting_ses] r h2 a show ?thesis by simp
qed

text \<open>
  C7. For every invocation that reaches the email-sending step, exactly one outbound
  request is constructed and the collaborator is invoked exactly once: no retry and no
  batching, whether the send succeeds or fails, and however many records the event
  carries. The theorem: when the steps before the \<^verbatim>\<open>try\<close> block yield the request
  \<open>q\<close>, the calls of the collaborator are exactly \<open>[q]\<close>, whatever the
  collaborator does; when they throw, there is no call; and an event with a list of
  records is handled exactly as the event holding its first record alone.
\<close>

theorem one_request_per_invocation:
  "(request rt event = Inr q \<longrightarrow> sent_requests (snd (handler rt event)) = [q])
   \<and> (request rt event = Inl e \<longrightarrow> sent_requests (snd (handler rt event)) = [])
   \<and> (js_get event ''Records'' = Inr (JArray (r # rs)) \<longrightarrow>
        handler rt event = handler rt (JObject [(''Records'', JArray [r])]))"
proof (intro conjI impI)
  assume "request rt event = Inr q"
  then show "sent_requests (snd (handler rt event)) = [q]"
    by (rule sent_requests_handler)
next
  assume "request rt event = Inl e"
  then show "sent_requests (snd (handler rt event)) = []"
    by (simp add: handler_def)
next
  assume "js_get event ''Records'' = Inr (JArray (r # rs))"
  then have "payload_fields rt event = payload_fields rt (JObject [(''Records'', JArray [r])])"
    by (simp add: payload_fields_def)
  then show "handler rt event = handler rt (JObject [(''Records'', JArray [r])])"
    by (simp add: handler_def request_def)
qed

theorem one_request_per_invocation_witness:
  "request (runtime_of rejecting_ses) two_records_event = Inr jane_request
   \<and> sent_requests (snd (handler (runtime_of rejecting_ses) two_records_event)) = [jane_request]
   \<and> js_get two_records_event ''Records'' =
        Inr (JArray [JObject [(''Sns'', JObject [(''Message'', JString jane_text)])],
                     JObject [(''Sns'', JObject [(''Message'', JString partial_text)])]])
   \<and> handler (runtime_of rejecting_ses) two_records_event =
        handler (runtime_of rejecting_ses) (sns_event jane_text)
   \<and> request (runtime_of rejecting_ses) (sns_event ''not json'') = Inl SyntaxError
   \<and> sent_requests (snd (handler (runtime_of rejecting_ses) (sns_event ''not json''))) = []"
proof -
  let ?rt = "runtime_of rejecting_ses"
  let ?r = "JObject [(''Sns'', JObject [(''Message'', JString jane_text)])]"
  let ?r2 = "JObject [(''Sns'', JObject [(''Message'', JString partial_text)])]"
  have g: "js_get two_records_event ''Records'' = Inr (JArray [?r, ?r2])"
    by (simp add: two_records_event_def)
  have h: "handler ?rt two_records_event = handler ?rt (sns_event jane_text)"
    using one_request_per_invocation [of ?rt two_records_event _ _ ?r "[?r2]"] g
    by (simp add: sns_event_def)
  have q: "request ?rt two_records_event = Inr jane_request"
    using h jane_request [of rejecting_ses]
    by (simp add: handler_def split: sum.splits completion.splits)
  have s: "sent_requests (snd (handler ?rt two_records_event)) = [jane_request]"
    using one_request_per_invocation [of ?rt two_records_event jane_request] q by blast
  have n: "request ?rt (sns_event ''not json'') = Inl SyntaxError"
    by (simp add: request_def payload_fields_def sns_event_def runtime_of_simps sample_parse_values)
  have "sent_requests (snd (handler ?rt (sns_event ''not json''))) = []"
    using one_request_per_invocation [of ?rt "sns_event ''not json''" _ SyntaxError] n by blast
  with g h q s n show ?thesis by blast
qed

text \<open>
  C8. Whenever the handler returns a result object (it does not fault), its
  \<^verbatim>\<open>statusCode\<close> is 200 or 400 and nothing else, and its \<^verbatim>\<open>body\<close> is a string:
  \<^verbatim>\<open>Email sent!\<close> with 200, \<^verbatim>\<open>Sending failed\<close> with 400.
\<close>

theorem result_status:
  assumes "fst (handler rt event) = Returned r"
  shows "(statusCode r = 200 \<and> body r = ''Email sent!'')
       \<or> (statusCode r = 400 \<and> body r = ''Sending failed'')"
  using assms by (auto simp: handler_def split: sum.splits completion.splits)

theorem result_status_witness:
  "fst (handler (runtime_of rejecting_ses) (sns_event jane_text)) =
     Returned \<lparr>statusCode = 400, body = ''Sending failed''\<rparr>
   \<and> ((statusCode \<lparr>statusCode = 400, body = ''Sending failed''\<rparr> = 200
       \<and> body \<lparr>statusCode = 400, body = ''Sending failed''\<rparr> = ''Email sent!'')
     \<or> (statusCode \<lparr>statusCode = 400, body = ''Sending failed''\<rparr> = 400
       \<and> body \<lparr>statusCode = 400, body = ''Sending failed''\<rparr> = ''Sending failed''))"
proof -
  have h: "fst (handler (runtime_of rejecting_ses) (sns_event jane_text)) =
     Returned \<lparr>statusCode = 400, body = ''Sending failed''\<rparr>"
  proof -
    have "await_send (runtime_of rejecting_ses) jane_request =
        Throw (Thrown (JString ''MessageRejected''))"
      by (simp add: await_send_def runtime_of_simps rejecting_ses_def)
    then show ?thesis
      by (simp add: handler_request [OF jane_request])
  qed
  from h result_status [OF h] show ?thesis by (rule conjI)
qed

text \<open>
  C9. For any two well-formed payloads that differ only in \<^verbatim>\<open>username\<close> and
  \<^verbatim>\<open>password\<close>, the handler constructs identical outbound requests and, when the
  collaborator ends the same way on that request, the two invocations have identical
  outcomes and effects. The two invocations may run against different runtimes.
\<close>

theorem unused_credentials:
  assumes "well_formed rt1 event1 p1" and "well_formed rt2 event2 p2"
    and "first_name p1 = first_name p2" and "last_name p1 = last_name p2"
    and "email p1 = email p2" and "token p1 = token p2"
  shows "request rt1 event1 = request rt2 event2
    \<and> (\<forall>q. request rt1 event1 = Inr q \<and> await_send rt1 q = await_send rt2 q \<longrightarrow>
          handler rt1 event1 = handler rt2 event2)"
proof -
  have eq: "request rt1 event1 = request rt2 event2"
    using assms(3-6)
    by (simp add: request_well_formed [OF assms(1)] request_well_formed [OF assms(2)])
  have "handler rt1 event1 = handler rt2 event2"
    if "request rt1 event1 = Inr q" and "await_send rt1 q = await_send rt2 q" for q
    using that eq by (simp add: handler_def)
  with eq show ?thesis by blast
qed

theorem unused_credentials_witness:
  "well_formed (runtime_of rejecting_ses) (sns_event jane_text) jane
   \<and> well_formed (runtime_of rejecting_ses) (sns_event jane_renamed_text) jane_renamed
   \<and> first_name jane = first_name jane_renamed \<and> last_name jane = last_name jane_renamed
   \<and> email jane = email jane_renamed \<and> token jane = token jane_renamed
   \<and> password jane \<noteq> password jane_renamed \<and> username jane \<noteq> username jane_renamed
   \<and> request (runtime_of rejecting_ses) (sns_event jane_renamed_text) = Inr jane_request
   \<and> handler (runtime_of rejecting_ses) (sns_event jane_text) =
       handler (runtime_of rejecting_ses) (sns_event jane_renamed_text)"
proof -
  let ?rt = "runtime_of rejecting_ses"
  have w: "well_formed ?rt (sns_event jane_renamed_text) jane_renamed"
    by (simp add: well_formed_def embedded_message_def sns_event_def runtime_of_simps
        sample_parse_values decoded_payload_def jane_renamed_object_def text_field_def
        jane_renamed_def)
  have f: "first_name jane = first_name jane_renamed" "last_name jane = last_name jane_renamed"
    "email jane = email jane_renamed" "token jane = token jane_renamed"
    "password jane \<noteq> password jane_renamed" "username jane \<noteq> username jane_renamed"
    by (simp_all add: jane_def jane_renamed_def)
  note u = unused_credentials [OF jane_well_formed w f(1-4), of rejecting_ses]
  from u jane_request [of rejecting_ses]
  have "request ?rt (sns_event jane_renamed_text) = Inr jane_request"
    and "handler ?rt (sns_event jane_text) = handler ?rt (sns_event jane_renamed_text)"
    by simp_all
  with w f jane_well_formed [of rejecting_ses] show ?thesis by blast
qed

text \<open>
  C10. The claim: for every event whose first record's message is valid JSON but lacks
  one or more of \<^verbatim>\<open>first_name\<close>, \<^verbatim>\<open>last_name\<close>, \<^verbatim>\<open>email\<close>, \<^verbatim>\<open>token\<close>, the
  handler does not fault; the missing values appear as the string \<^verbatim>\<open>undefined\<close> in
  the URL, the destination and the body, and a result object is returned. Three inputs
  show where the code does otherwise. The JSON text \<^verbatim>\<open>null\<close> decodes to
  \<^verbatim>\<open>null\<close>, which cannot be destructured: the handler faults. A payload whose
  \<^verbatim>\<open>email\<close> is an object with a property \<^verbatim>\<open>toString\<close> lacks three fields, and
  the handler faults when it concatenates the email. And for a payload without
  \<^verbatim>\<open>email\<close> the destination list holds the value \<^verbatim>\<open>undefined\<close>, not the string.
\<close>

theorem missing_fields_counterexample:
  "embedded_message (sns_event ''null'') = Some ''null''
   \<and> JSON_parse (runtime_of resolving_ses) ''null'' = Inr JNull
   \<and> handler (runtime_of resolving_ses) (sns_event ''null'') = (Faulted TypeError, [])
   \<and> embedded_message (sns_event shadowing_text) = Some shadowing_text
   \<and> JSON_parse (runtime_of resolving_ses) shadowing_text = Inr shadowing_object
   \<and> handler (runtime_of resolving_ses) (sns_event shadowing_text) = (Faulted TypeError, [])
   \<and> embedded_message (sns_event partial_text) = Some partial_text
   \<and> JSON_parse (runtime_of resolving_ses) partial_text = Inr partial_object
   \<and> request (runtime_of resolving_ses) (sns_event partial_text) = Inr partial_request
   \<and> ToAddresses (Destination partial_request) = [JUndefined]"
proof -
  let ?rt = "runtime_of resolving_ses"
  have m: "embedded_message (sns_event t) = Some t" for t
    by (simp add: embedded_message_def sns_event_def)
  have p: "payload_fields ?rt (sns_event t) =
      (case sample_parse t of Inl e \<Rightarrow> Inl e | Inr v \<Rightarrow> destructure v)" for t
    by (simp add: payload_fields_message [OF m] runtime_of_simps)
  have 1: "handler ?rt (sns_event ''null'') = (Faulted TypeError, [])"
    by (simp add: handler_def request_def p sample_parse_values destructure_def)
  have 2: "handler ?rt (sns_event shadowing_text) = (Faulted TypeError, [])"
    by (simp add: handler_def request_def p sample_parse_values destructure_def
        shadowing_object_def verificationLink_def)
  have 3: "request ?rt (sns_event partial_text) = Inr partial_request"
    by (simp add: request_def p sample_parse_values destructure_def partial_object_def
        verificationLink_def params_def partial_request_def)
  have 4: "ToAddresses (Destination partial_request) = [JUndefined]"
    by (simp add: partial_request_def)
  from m 1 2 3 4 show ?thesis
    by (simp add: runtime_of_simps sample_parse_values)
qed

text \<open>
  C10 as amended. For every event whose first record's message is valid JSON decoding to
  a value other than \<^verbatim>\<open>null\<close>, in which each of \<^verbatim>\<open>first_name\<close>,
  \<^verbatim>\<open>last_name\<close>, \<^verbatim>\<open>email\<close>, \<^verbatim>\<open>token\<close> is missing or has a value that converts
  to a string, the handler does not fault. Each missing value is rendered as the literal
  \<^verbatim>\<open>undefined\<close> in the verification URL and in the HTML body; the destination list
  holds the value of \<^verbatim>\<open>email\<close> itself, which is \<^verbatim>\<open>undefined\<close> when the field is
  missing. The handler returns a result object unless the promise of the send never
  settles. (\<^verbatim>\<open>JSON.parse\<close> never yields \<^verbatim>\<open>undefined\<close>; the parser being a
  parameter here, the theorem says so in a hypothesis.)
\<close>

theorem missing_fields_undefined:
  assumes "embedded_message event = Some m" and "JSON_parse rt m = Inr v"
    and "v \<noteq> JNull" and "v \<noteq> JUndefined"
    and "rendering (own_field v ''first_name'') = Some fs"
    and "rendering (own_field v ''last_name'') = Some ls"
    and "rendering (own_field v ''email'') = Some es"
    and "rendering (own_field v ''token'') = Some ts"
  shows "\<exists>q. request rt event = Inr q
    \<and> q = \<lparr>Destination =
             \<lparr>ToAddresses =
                [case own_field v ''email'' of None \<Rightarrow> JUndefined | Some x \<Rightarrow> x]\<rparr>,
           Message =
             \<lparr>Body = \<lparr>Html = \<lparr>Data =
                ''<html><body>Hello '' @ fs @ '' '' @ ls
                @ '',<br> Thank you for subscribing. To use the portal verify by clicking the below link.<br><br><a href=''
                @ (''http://prod.polepeddiaravind.me/v1/verifyUserEmail?email='' @ es
                   @ ''&token='' @ ts)
                @ ''>Verify your account</a><br><br><br> Kind Regards,<br> <strong>Team CSYE6225!<strong></body></html>''\<rparr>\<rparr>,
              Subject = \<lparr>Data = ''Subscribe to the link to use service''\<rparr>\<rparr>,
           Source = ''aravind@yprod.polepeddiaravind.me''\<rparr>
    \<and> (\<forall>e. fst (handler rt event) \<noteq> Faulted e)
    \<and> (await_send rt q \<noteq> Never \<longrightarrow> (\<exists>r. fst (handler rt event) = Returned r))"
proof -
  have "payload_fields rt event = destructure v"
    using payload_fields_message [OF assms(1), of rt] assms(2) by simp
  then have q: "request rt event =
     Inr \<lparr>Destination =
             \<lparr>ToAddresses =
                [case own_field v ''email'' of None \<Rightarrow> JUndefined | Some x \<Rightarrow> x]\<rparr>,
           Message =
             \<lparr>Body = \<lparr>Html = \<lparr>Data =
                ''<html><body>Hello '' @ fs @ '' '' @ ls
                @ '',<br> Thank you for subscribing. To use the portal verify by clicking the below link.<br><br><a href=''
                @ (''http://prod.polepeddiaravind.me/v1/verifyUserEmail?email='' @ es
                   @ ''&token='' @ ts)
                @ ''>Verify your account</a><br><br><br> Kind Regards,<br> <strong>Team CSYE6225!<strong></body></html>''\<rparr>\<rparr>,
              Subject = \<lparr>Data = ''Subscribe to the link to use service''\<rparr>\<rparr>,
           Source = ''aravind@yprod.polepeddiaravind.me''\<rparr>" (is "_ = Inr ?q")
    by (simp add: request_def destructure_fields [OF assms(3,4)] verificationLink_def
        params_def to_string_rendering [OF assms(5)] to_string_rendering [OF assms(6)]
        to_string_rendering [OF assms(7)] to_string_rendering [OF assms(8)])
      (simp add: field_value_def)
  have nf: "\<forall>e. fst (handler rt event) \<noteq> Faulted e"
    by (simp add: handler_faults_iff q)
  have "await_send rt ?q \<noteq> Never \<longrightarrow> (\<exists>r. fst (handler rt event) = Returned r)"
    by (cases "await_send rt ?q") (simp_all add: handler_request [OF q])
  with q nf show ?thesis by blast
qed

theorem missing_fields_undefined_witness:
  "embedded_message (sns_event partial_text) = Some partial_text
   \<and> JSON_parse (runtime_of resolving_ses) partial_text = Inr partial_object
   \<and> partial_object \<noteq> JNull \<and> partial_object \<noteq> JUndefined
   \<and> rendering (own_field partial_object ''first_name'') = Some ''Jane''
   \<and> rendering (own_field partial_object ''last_name'') = Some ''undefined''
   \<and> rendering (own_field partial_object ''email'') = Some ''undefined''
   \<and> rendering (own_field partial_object ''token'') = Some ''abc123''
   \<and> own_field partial_object ''last_name'' = None
   \<and> own_field partial_object ''email'' = None
   \<and> request (runtime_of resolving_ses) (sns_event partial_text) = Inr partial_request
   \<and> await_send (runtime_of resolving_ses) partial_request \<noteq> Never
   \<and> fst (handler (runtime_of resolving_ses) (sns_event partial_text)) =
       Returned \<lparr>statusCode = 200, body = ''Email sent!''\<rparr>"
proof -
  let ?rt = "runtime_of resolving_ses"
  have m: "embedded_message (sns_event partial_text) = Some partial_text"
    by (simp add: embedded_message_def sns_event_def)
  have v: "JSON_parse ?rt partial_text = Inr partial_object"
    by (simp add: runtime_of_simps sample_parse_values)
  have n: "partial_object \<noteq> JNull" "partial_object \<noteq> JUndefined"
    by (simp_all add: partial_object_def)
  have s: "rendering (own_field partial_object ''first_name'') = Some ''Jane''"
    "rendering (own_field partial_object ''last_name'') = Some ''undefined''"
    "rendering (own_field partial_object ''email'') = Some ''undefined''"
    "rendering (own_field partial_object ''token'') = Some ''abc123''"
    by (simp_all add: rendering_def own_field_def partial_object_def)
  have o: "own_field partial_object ''last_name'' = None"
    "own_field partial_object ''email'' = None"
    by (simp_all add: own_field_def partial_object_def)
  have a: "await_send ?rt q = Normal" for q
    by (simp add: await_send_def runtime_of_simps resolving_ses_def)
  from missing_fields_undefined [OF m v n s]
  have q: "request ?rt (sns_event partial_text) = Inr partial_request"
    by (simp add: o partial_request_def)
  have "fst (handler ?rt (sns_event partial_text)) =
      Returned \<lparr>statusCode = 200, body = ''Email sent!''\<rparr>"
    by (simp add: handler_request [OF q] a)
  with m v n s o q a show ?thesis by simp
qed

section \<open>Further properties\<close>

text \<open>
  X1. The handler writes to the error log exactly when it answers 400: a 200 answer
  comes with an empty log and the one send call as the only effect; a 400 answer comes
  with the send call followed by one log entry, the exception that the \<^verbatim>\<open>try\<close>
  block caught.
\<close>

theorem failure_is_logged:
  assumes "fst (handler rt event) = Returned r"
  shows "(statusCode r = 200 \<longrightarrow> logged_errors (snd (handler rt event)) = [])
    \<and> (statusCode r = 400 \<longrightarrow>
         (\<exists>q e. await_send rt q = Throw e
            \<and> snd (handler rt event) = [Call_sendEmail q, Console_error e]))"
  using assms by (auto simp: handler_def split: sum.splits completion.splits)

theorem failure_is_logged_witness:
  "fst (handler (runtime_of rejecting_ses) (sns_event jane_text)) =
     Returned \<lparr>statusCode = 400, body = ''Sending failed''\<rparr>
   \<and> statusCode \<lparr>statusCode = 400, body = ''Sending failed''\<rparr> = 400
   \<and> logged_errors (snd (handler (runtime_of rejecting_ses) (sns_event jane_text))) =
       [Thrown (JString ''MessageRejected'')]"
proof -
  let ?rt = "runtime_of rejecting_ses"
  have a: "await_send ?rt q = Throw (Thrown (JString ''MessageRejected''))" for q
    by (simp add: await_send_def runtime_of_simps rejecting_ses_def)
  have h: "fst (handler ?rt (sns_event jane_text)) =
      Returned \<lparr>statusCode = 400, body = ''Sending failed''\<rparr>"
    by (simp add: handler_request [OF jane_request] a)
  from failure_is_logged [OF h] obtain q e
    where "await_send ?rt q = Throw e"
      and "snd (handler ?rt (sns_event jane_text)) = [Call_sendEmail q, Console_error e]"
    by auto
  with a h show ?thesis by simp
qed

text \<open>
  X2. An invocation that faults has done nothing to the outside: the exception comes from
  a step before the \<^verbatim>\<open>try\<close> block, so no email was requested and nothing was
  logged.
\<close>

theorem fault_has_no_effect:
  assumes "fst (handler rt event) = Faulted e"
  shows "snd (handler rt event) = []"
  using assms by (auto simp: handler_def split: sum.splits completion.splits)

theorem fault_has_no_effect_witness:
  "fst (handler (runtime_of resolving_ses) (JObject [(''Records'', JArray [])])) = Faulted TypeError
   \<and> snd (handler (runtime_of resolving_ses) (JObject [(''Records'', JArray [])])) = []"
proof -
  have f: "fst (handler (runtime_of resolving_ses) (JObject [(''Records'', JArray [])])) =
      Faulted TypeError"
    by (simp add: handler_def request_def payload_fields_def)
  from f fault_has_no_effect [OF f] show ?thesis by (rule conjI)
qed

end
